theory Spec2Isabelle
  imports Complex_Main
begin

section \<open>Python exceptions: classes, subclassing and \<open>isinstance\<close>\<close>

text \<open>
  A Python class is identified by the module that defines it, its name and its base
  classes. The hierarchy is open: any number of further classes may derive from the
  ones below, with several bases if they like. \<open>issubclass c d\<close> walks the bases of
  \<open>c\<close>, as Python's \<open>issubclass\<close> does.
\<close>

datatype pyclass = PyClass (cmodule: string) (cname: string) (bases: "pyclass list")

fun issubclass :: "pyclass \<Rightarrow> pyclass \<Rightarrow> bool" where
  "issubclass (PyClass m n bs) d =
     (PyClass m n bs = d \<or> list_ex (\<lambda>b. issubclass b d) bs)"

text \<open>
  The text of a Python \<open>str\<close> that the program does not choose itself: its code
  points, one number each. A Python \<open>str\<close> may hold surrogate code points
  (D800 to DFFF) on their own; such a text is not well-formed Unicode. The length of a
  text is the number of its code points.
\<close>

type_synonym pystr = "nat list"

definition py_str :: "string \<Rightarrow> pystr" where
  "py_str s = map of_char s"

definition well_formed :: "pystr \<Rightarrow> bool" where
  "well_formed s = list_all (\<lambda>c. c < 0xD800 \<or> (0xDFFF < c \<and> c < 0x110000)) s"

text \<open>A raised exception: its class and the text \<open>str(e)\<close> returns.\<close>

record pyexc =
  exc_class :: pyclass
  exc_str :: pystr

definition isinstance :: "pyexc \<Rightarrow> pyclass \<Rightarrow> bool" where
  "isinstance e c = issubclass (exc_class e) c"

definition raise :: "pyclass \<Rightarrow> pystr \<Rightarrow> pyexc" where
  "raise c msg = \<lparr>exc_class = c, exc_str = msg\<rparr>"

subsection \<open>The built-in exception classes the code names\<close>

definition BaseException :: pyclass where
  "BaseException = PyClass ''builtins'' ''BaseException'' []"

definition Exception :: pyclass where
  "Exception = PyClass ''builtins'' ''Exception'' [BaseException]"

definition ValueError :: pyclass where
  "ValueError = PyClass ''builtins'' ''ValueError'' [Exception]"

definition OSError :: pyclass where
  "OSError = PyClass ''builtins'' ''OSError'' [Exception]"

definition FileNotFoundError :: pyclass where
  "FileNotFoundError = PyClass ''builtins'' ''FileNotFoundError'' [OSError]"

definition PermissionError :: pyclass where
  "PermissionError = PyClass ''builtins'' ''PermissionError'' [OSError]"

definition ConnectionError :: pyclass where
  "ConnectionError = PyClass ''builtins'' ''ConnectionError'' [OSError]"

definition RuntimeError :: pyclass where
  "RuntimeError = PyClass ''builtins'' ''RuntimeError'' [Exception]"

definition NotImplementedError :: pyclass where
  "NotImplementedError = PyClass ''builtins'' ''NotImplementedError'' [RuntimeError]"

subsection \<open>apps/api/exceptions: the taxonomy classes of the real router\<close>

definition exceptions_module :: string where
  "exceptions_module = ''apps.api.exceptions.__init___''"

definition InvalidURLError :: pyclass where
  "InvalidURLError = PyClass exceptions_module ''InvalidURLError'' [ValueError]"

definition InvalidTokenError :: pyclass where
  "InvalidTokenError = PyClass exceptions_module ''InvalidTokenError'' [ValueError]"

definition InsufficientPermissionsError :: pyclass where
  "InsufficientPermissionsError =
     PyClass exceptions_module ''InsufficientPermissionsError'' [PermissionError]"

definition RepoTooLargeError :: pyclass where
  "RepoTooLargeError = PyClass exceptions_module ''RepoTooLargeError'' [ValueError]"

definition ProcessingFailedError :: pyclass where
  "ProcessingFailedError = PyClass exceptions_module ''ProcessingFailedError'' [Exception]"

definition StorageError :: pyclass where
  "StorageError = PyClass exceptions_module ''StorageError'' [Exception]"

definition UnsupportedFormatError :: pyclass where
  "UnsupportedFormatError = PyClass exceptions_module ''UnsupportedFormatError'' [Exception]"

subsection \<open>apps/api/simulation\_main: its own copies of the taxonomy classes\<close>

definition simulation_module :: string where
  "simulation_module = ''apps.api.simulation_main''"

definition Sim_InvalidURLError :: pyclass where
  "Sim_InvalidURLError = PyClass simulation_module ''InvalidURLError'' [ValueError]"

definition Sim_InvalidTokenError :: pyclass where
  "Sim_InvalidTokenError = PyClass simulation_module ''InvalidTokenError'' [ValueError]"

definition Sim_InsufficientPermissionsError :: pyclass where
  "Sim_InsufficientPermissionsError =
     PyClass simulation_module ''InsufficientPermissionsError'' [PermissionError]"

definition Sim_RepoTooLargeError :: pyclass where
  "Sim_RepoTooLargeError = PyClass simulation_module ''RepoTooLargeError'' [ValueError]"

definition Sim_ProcessingFailedError :: pyclass where
  "Sim_ProcessingFailedError =
     PyClass simulation_module ''ProcessingFailedError'' [Exception]"

definition Sim_StorageError :: pyclass where
  "Sim_StorageError = PyClass simulation_module ''StorageError'' [Exception]"

definition Sim_UnsupportedFormatError :: pyclass where
  "Sim_UnsupportedFormatError =
     PyClass simulation_module ''UnsupportedFormatError'' [Exception]"

section \<open>Error response models (core/models)\<close>

text \<open>
  What can go wrong while an endpoint answers: pydantic refuses to build a model
  (\<open>ValidationError\<close>), or an exception no \<open>except\<close> clause matches leaves the handler.
\<close>

datatype failure = ValidationError | Propagated pyexc

record error_body =
  success :: bool
  error :: pystr
  error_code :: pystr

text \<open>
  \<open>IngestErrorResponse\<close> and \<open>ChatErrorResponse\<close>: \<open>success\<close> defaults to False,
  \<open>error\<close> has \<open>min_length=1, max_length=1000\<close> and \<open>error_code\<close> has
  \<open>min_length=1, max_length=50\<close>. Both are \<open>str\<close> fields: a text that is not
  well-formed Unicode is refused. Constructing one with a field that is refused or
  outside its bounds raises.
\<close>

definition str_field_ok :: "nat \<Rightarrow> nat \<Rightarrow> pystr \<Rightarrow> bool" where
  "str_field_ok min_length max_length v =
     (well_formed v \<and> min_length \<le> length v \<and> length v \<le> max_length)"

definition IngestErrorResponse :: "pystr \<Rightarrow> pystr \<Rightarrow> failure + error_body" where
  "IngestErrorResponse err code =
     (if str_field_ok 1 1000 err \<and> str_field_ok 1 50 code
      then Inr \<lparr>success = False, error = err, error_code = code\<rparr>
      else Inl ValidationError)"

definition ChatErrorResponse :: "pystr \<Rightarrow> pystr \<Rightarrow> failure + error_body" where
  "ChatErrorResponse err code =
     (if str_field_ok 1 1000 err \<and> str_field_ok 1 50 code
      then Inr \<lparr>success = False, error = err, error_code = code\<rparr>
      else Inl ValidationError)"

record json_response =
  status_code :: nat
  content :: error_body

text \<open>
  \<open>JSONResponse(status_code=s, content=M(...).dict())\<close>: the content is evaluated
  first, so a model that cannot be built means no response is built either.
\<close>

definition JSONResponse :: "nat \<Rightarrow> failure + error_body \<Rightarrow> failure + json_response" where
  "JSONResponse s c =
     (case c of Inl f \<Rightarrow> Inl f | Inr b \<Rightarrow> Inr \<lparr>status_code = s, content = b\<rparr>)"

section \<open>apps/api/utils/error\_handlers\<close>

definition handle_ingestion_error :: "pyexc \<Rightarrow> failure + json_response" where
  "handle_ingestion_error e =
     (if isinstance e InvalidURLError then
        JSONResponse 400 (IngestErrorResponse (exc_str e) (py_str ''INVALID_URL''))
      else if isinstance e InvalidTokenError then
        JSONResponse 401 (IngestErrorResponse (exc_str e) (py_str ''INVALID_TOKEN''))
      else if isinstance e InsufficientPermissionsError then
        JSONResponse 403 (IngestErrorResponse (exc_str e) (py_str ''INSUFFICIENT_PERMISSIONS''))
      else if isinstance e FileNotFoundError then
        JSONResponse 404 (IngestErrorResponse (exc_str e) (py_str ''REPO_NOT_FOUND''))
      else if isinstance e PermissionError then
        JSONResponse 401 (IngestErrorResponse (exc_str e) (py_str ''PRIVATE_REPO_NO_TOKEN''))
      else if isinstance e RepoTooLargeError then
        JSONResponse 422 (IngestErrorResponse (exc_str e) (py_str ''REPO_TOO_LARGE''))
      else if isinstance e ProcessingFailedError then
        JSONResponse 422 (IngestErrorResponse (exc_str e) (py_str ''PROCESSING_FAILED''))
      else if isinstance e StorageError then
        JSONResponse 500 (IngestErrorResponse (exc_str e) (py_str ''STORAGE_ERROR''))
      else if isinstance e NotImplementedError then
        JSONResponse 501
          (IngestErrorResponse (py_str ''Ingestion agent not yet implemented'') (py_str ''NOT_IMPLEMENTED''))
      else
        JSONResponse 500
          (IngestErrorResponse
             (py_str ''An unexpected error occurred during repository processing.'')
             (py_str ''AGENT_ERROR'')))"

definition handle_chat_error :: "pyexc \<Rightarrow> failure + json_response" where
  "handle_chat_error e =
     (if isinstance e FileNotFoundError then
        JSONResponse 404 (ChatErrorResponse (exc_str e) (py_str ''REPO_NOT_INDEXED''))
      else if isinstance e ValueError then
        JSONResponse 422 (ChatErrorResponse (exc_str e) (py_str ''QUERY_PROCESSING_FAILED''))
      else if isinstance e ConnectionError then
        JSONResponse 500 (ChatErrorResponse (exc_str e) (py_str ''AGENT_UNAVAILABLE''))
      else if isinstance e NotImplementedError then
        JSONResponse 501
          (ChatErrorResponse (py_str ''Chat agent not yet implemented'') (py_str ''NOT_IMPLEMENTED''))
      else
        JSONResponse 500
          (ChatErrorResponse
             (py_str ''An unexpected error occurred while processing the chat request.'')
             (py_str ''AGENT_ERROR'')))"

section \<open>apps/api/simulation\_main: the inline \<open>except\<close> chains\<close>

text \<open>
  The \<open>except\<close> clauses of the simulation's \<open>ingest_repository\<close> and
  \<open>chat_with_repository\<close>, in the order written, applied to the exception the
  collaborator raised. The last clause is \<open>except Exception\<close>; an exception that is
  not an \<open>Exception\<close> leaves the handler.
\<close>

definition sim_ingest_except :: "pyexc \<Rightarrow> failure + json_response" where
  "sim_ingest_except e =
     (if isinstance e Sim_InvalidURLError then
        JSONResponse 400 (IngestErrorResponse (exc_str e) (py_str ''INVALID_URL''))
      else if isinstance e Sim_InvalidTokenError then
        JSONResponse 401 (IngestErrorResponse (exc_str e) (py_str ''INVALID_TOKEN''))
      else if isinstance e Sim_InsufficientPermissionsError then
        JSONResponse 403 (IngestErrorResponse (exc_str e) (py_str ''INSUFFICIENT_PERMISSIONS''))
      else if isinstance e FileNotFoundError then
        JSONResponse 404 (IngestErrorResponse (exc_str e) (py_str ''REPO_NOT_FOUND''))
      else if isinstance e PermissionError then
        JSONResponse 401 (IngestErrorResponse (exc_str e) (py_str ''PRIVATE_REPO_NO_TOKEN''))
      else if isinstance e Sim_RepoTooLargeError then
        JSONResponse 422 (IngestErrorResponse (exc_str e) (py_str ''REPO_TOO_LARGE''))
      else if isinstance e Sim_ProcessingFailedError then
        JSONResponse 422 (IngestErrorResponse (exc_str e) (py_str ''PROCESSING_FAILED''))
      else if isinstance e Sim_StorageError then
        JSONResponse 500 (IngestErrorResponse (exc_str e) (py_str ''STORAGE_ERROR''))
      else if isinstance e Exception then
        JSONResponse 500
          (IngestErrorResponse
             (py_str ''An unexpected error occurred during repository processing.'')
             (py_str ''AGENT_ERROR''))
      else Inl (Propagated e))"

definition sim_chat_except :: "pyexc \<Rightarrow> failure + json_response" where
  "sim_chat_except e =
     (if isinstance e FileNotFoundError then
        JSONResponse 404 (ChatErrorResponse (exc_str e) (py_str ''REPO_NOT_INDEXED''))
      else if isinstance e ValueError then
        JSONResponse 422 (ChatErrorResponse (exc_str e) (py_str ''QUERY_PROCESSING_FAILED''))
      else if isinstance e ConnectionError then
        JSONResponse 500 (ChatErrorResponse (exc_str e) (py_str ''AGENT_UNAVAILABLE''))
      else if isinstance e Exception then
        JSONResponse 500
          (ChatErrorResponse
             (py_str ''An unexpected error occurred while processing the chat request.'')
             (py_str ''AGENT_ERROR''))
      else Inl (Propagated e))"

text \<open>The \<open>(status_code, error_code)\<close> pair a client reads off an outcome, if any.\<close>

definition classification :: "failure + json_response \<Rightarrow> (nat \<times> pystr) option" where
  "classification r =
     (case r of Inl f \<Rightarrow> None | Inr j \<Rightarrow> Some (status_code j, error_code (content j)))"

section \<open>The routes: \<open>try\<close> the collaborator, \<open>except Exception\<close> classify\<close>

datatype 'r reply = Ok200 'r | Err json_response

text \<open>
  apps/api/routes/ingestion and apps/api/routes/chat. The collaborator is a parameter:
  it returns a success payload (\<open>Inr\<close>) or raises (\<open>Inl\<close>). \<open>except Exception\<close>
  catches instances of \<open>Exception\<close> only.
\<close>

definition ingest_repository :: "('q \<Rightarrow> pyexc + 'r) \<Rightarrow> 'q \<Rightarrow> failure + 'r reply" where
  "ingest_repository process_repository request =
     (case process_repository request of
        Inr result \<Rightarrow> Inr (Ok200 result)
      | Inl e \<Rightarrow>
          if isinstance e Exception then map_sum id Err (handle_ingestion_error e)
          else Inl (Propagated e))"

definition chat_with_repository :: "('q \<Rightarrow> pyexc + 'r) \<Rightarrow> 'q \<Rightarrow> failure + 'r reply" where
  "chat_with_repository process_query request =
     (case process_query request of
        Inr result \<Rightarrow> Inr (Ok200 result)
      | Inl e \<Rightarrow>
          if isinstance e Exception then map_sum id Err (handle_chat_error e)
          else Inl (Propagated e))"

text \<open>apps/api/services: the real collaborators are stubs that always raise.\<close>

definition IngestionService_process_repository :: "'q \<Rightarrow> pyexc + 'r" where
  "IngestionService_process_repository request =
     Inl (raise NotImplementedError (py_str ''Ingestion agent integration pending''))"

definition ChatService_process_query :: "'q \<Rightarrow> pyexc + 'r" where
  "ChatService_process_query request =
     Inl (raise NotImplementedError (py_str ''Chat agent integration pending''))"

section \<open>Relating the two modules' taxonomy classes\<close>

text \<open>
  The simulation defines its own copies of the taxonomy classes. \<open>twin\<close> exchanges
  the two defining modules throughout a class and its bases, so that a class of
  apps/api/exceptions is sent to the simulation's class of the same name and bases,
  and built-in classes are left alone.
\<close>

fun swap_module :: "string \<Rightarrow> string" where
  "swap_module m =
     (if m = exceptions_module then simulation_module
      else if m = simulation_module then exceptions_module else m)"

fun twin :: "pyclass \<Rightarrow> pyclass" where
  "twin (PyClass m n bs) = PyClass (swap_module m) n (map twin bs)"

definition twin_exc :: "pyexc \<Rightarrow> pyexc" where
  "twin_exc e = e\<lparr>exc_class := twin (exc_class e)\<rparr>"

text \<open>An error reply as the client receives it: status, \<open>error_code\<close> and \<open>error\<close>.\<close>

definition error_reply :: "nat \<Rightarrow> string \<Rightarrow> pystr \<Rightarrow> failure + 'r reply" where
  "error_reply s code msg =
     Inr (Err \<lparr>status_code = s,
               content = \<lparr>success = False, error = msg, error_code = py_str code\<rparr>\<rparr>)"

text \<open>
  A client-side class with two bases, as Python allows: both a \<open>FileNotFoundError\<close>
  and a \<open>ValueError\<close>.
\<close>

definition MissingValueError :: pyclass where
  "MissingValueError =
     PyClass ''client'' ''MissingValueError'' [FileNotFoundError, ValueError]"

section \<open>Regular expressions\<close>

text \<open>
  The patterns of the models are regular expressions over characters. They are
  matched by Brzozowski derivatives; \<open>seq\<close> and \<open>alt\<close> build a sequence and an
  alternative and drop operands that change nothing.
\<close>

datatype regex =
  Nothing | Eps | Range char char | Seq regex regex | Alt regex regex | Star regex

fun nullable :: "regex \<Rightarrow> bool" where
  "nullable Nothing = False"
| "nullable Eps = True"
| "nullable (Range lo hi) = False"
| "nullable (Seq r s) = (nullable r \<and> nullable s)"
| "nullable (Alt r s) = (nullable r \<or> nullable s)"
| "nullable (Star r) = True"

definition in_range :: "char \<Rightarrow> char \<Rightarrow> char \<Rightarrow> bool" where
  "in_range lo hi c =
     ((of_char lo :: nat) \<le> of_char c \<and> (of_char c :: nat) \<le> of_char hi)"

fun seq :: "regex \<Rightarrow> regex \<Rightarrow> regex" where
  "seq Nothing s = Nothing"
| "seq Eps s = s"
| "seq r s = Seq r s"

fun alt :: "regex \<Rightarrow> regex \<Rightarrow> regex" where
  "alt Nothing s = s"
| "alt r Nothing = r"
| "alt r s = Alt r s"

fun deriv :: "char \<Rightarrow> regex \<Rightarrow> regex" where
  "deriv c Nothing = Nothing"
| "deriv c Eps = Nothing"
| "deriv c (Range lo hi) = (if in_range lo hi c then Eps else Nothing)"
| "deriv c (Seq r s) =
     (if nullable r then alt (seq (deriv c r) s) (deriv c s) else seq (deriv c r) s)"
| "deriv c (Alt r s) = alt (deriv c r) (deriv c s)"
| "deriv c (Star r) = seq (deriv c r) (Star r)"

text \<open>The whole string matches the expression.\<close>

fun fullmatch :: "regex \<Rightarrow> string \<Rightarrow> bool" where
  "fullmatch r [] = nullable r"
| "fullmatch r (c # cs) = fullmatch (deriv c r) cs"

definition Lit :: "char \<Rightarrow> regex" where
  "Lit c = Range c c"

fun Str :: "string \<Rightarrow> regex" where
  "Str [] = Eps"
| "Str (c # cs) = Seq (Lit c) (Str cs)"

definition Plus :: "regex \<Rightarrow> regex" where
  "Plus r = Seq r (Star r)"

definition Opt :: "regex \<Rightarrow> regex" where
  "Opt r = Alt r Eps"

fun Repeat :: "nat \<Rightarrow> regex \<Rightarrow> regex" where
  "Repeat 0 r = Eps"
| "Repeat (Suc n) r = Seq r (Repeat n r)"

text \<open>
  \<open>re.match(p, v)\<close> of Python's \<open>re\<close> for a pattern \<open>^r$\<close>: in Python \<open>$\<close>
  matches at the end of the string and also just before a newline that ends the
  string.
\<close>

definition re_match :: "regex \<Rightarrow> string \<Rightarrow> bool" where
  "re_match r v =
     (fullmatch r v \<or> (v \<noteq> [] \<and> last v = CHR 0x0A \<and> fullmatch r (butlast v)))"

text \<open>
  \<open>Field(pattern=p)\<close> of pydantic for a pattern \<open>^r$\<close>: the string as a whole
  matches \<open>r\<close>.
\<close>

definition pattern_matches :: "regex \<Rightarrow> string \<Rightarrow> bool" where
  "pattern_matches r v = fullmatch r v"

text \<open>\<open>sub in s\<close> on Python strings.\<close>

fun startswith :: "string \<Rightarrow> string \<Rightarrow> bool" where
  "startswith s [] = True"
| "startswith [] (p # ps) = False"
| "startswith (c # cs) (p # ps) = (c = p \<and> startswith cs ps)"

fun contains :: "string \<Rightarrow> string \<Rightarrow> bool" where
  "contains [] sub = (sub = [])"
| "contains (c # cs) sub = (startswith (c # cs) sub \<or> contains cs sub)"

section \<open>core/models/repository\<close>

text \<open>\<open>[a-zA-Z0-9._-]\<close>\<close>

definition github_name_char :: regex where
  "github_name_char =
     Alt (Range CHR ''a'' CHR ''z'') (Alt (Range CHR ''A'' CHR ''Z'')
       (Alt (Range CHR ''0'' CHR ''9'')
         (Alt (Lit CHR ''.'') (Alt (Lit CHR ''_'') (Lit CHR ''-'')))))"

text \<open>\<open>^https://github\.com/[a-zA-Z0-9._-]+/[a-zA-Z0-9._-]+/?$\<close>\<close>

definition github_pattern :: regex where
  "github_pattern =
     Seq (Str ''https://github'') (Seq (Lit CHR ''.'') (Seq (Str ''com/'')
       (Seq (Plus github_name_char) (Seq (Lit CHR ''/'')
         (Seq (Plus github_name_char) (Opt (Lit CHR ''/'')))))))"

record ingest_request =
  repository_url :: string
  github_token :: "string option"

definition validate_github_url :: "string \<Rightarrow> pyexc + string" where
  "validate_github_url v =
     (if \<not> re_match github_pattern v
      then Inl (raise ValueError (py_str ''Must be a valid GitHub repository URL''))
      else Inr v)"

text \<open>
  Building an \<open>IngestRequest\<close>: the field bounds (\<open>repository_url\<close> 19 to 200
  characters, a present \<open>github_token\<close> 4 to 200), then the field validator; a
  \<open>ValueError\<close> from the validator becomes a validation error.
\<close>

definition IngestRequest :: "string \<Rightarrow> string option \<Rightarrow> failure + ingest_request" where
  "IngestRequest url token =
     (if \<not> (19 \<le> length url \<and> length url \<le> 200) then Inl ValidationError
      else case validate_github_url url of
        Inl e \<Rightarrow> Inl ValidationError
      | Inr v \<Rightarrow>
          (case token of
             None \<Rightarrow> Inr \<lparr>repository_url = v, github_token = None\<rparr>
           | Some t \<Rightarrow>
               if 4 \<le> length t \<and> length t \<le> 200
               then Inr \<lparr>repository_url = v, github_token = Some t\<rparr>
               else Inl ValidationError))"

record processing_summary =
  files_processed :: int
  processing_time_seconds :: real

definition ProcessingSummary :: "int \<Rightarrow> real \<Rightarrow> failure + processing_summary" where
  "ProcessingSummary files seconds =
     (if 0 \<le> files \<and> 0 \<le> seconds
      then Inr \<lparr>files_processed = files, processing_time_seconds = seconds\<rparr>
      else Inl ValidationError)"

text \<open>\<open>^repo-[a-f0-9]{8}$\<close>, as written in \<open>IngestSuccessResponse.repository_id\<close>.\<close>

definition ingest_repository_id_pattern :: regex where
  "ingest_repository_id_pattern =
     Seq (Str ''repo-'') (Repeat 8 (Alt (Range CHR ''a'' CHR ''f'') (Range CHR ''0'' CHR ''9'')))"

text \<open>
  \<open>IngestSuccessResponse\<close>. Its fields \<open>success\<close>, \<open>repository_id\<close> and
  \<open>message\<close> carry the prefix \<open>ingest_\<close> here, to keep them apart from the fields of
  the same names in the other models.
\<close>

record ingest_success =
  ingest_success :: bool
  ingest_repository_id :: string
  ingest_message :: string
  ingest_processing_summary :: processing_summary

definition IngestSuccessResponse ::
  "bool \<Rightarrow> string \<Rightarrow> string \<Rightarrow> failure + processing_summary \<Rightarrow> failure + ingest_success"
where
  "IngestSuccessResponse ok rid msg summary =
     (if \<not> pattern_matches ingest_repository_id_pattern rid then Inl ValidationError
      else if \<not> (1 \<le> length msg \<and> length msg \<le> 500) then Inl ValidationError
      else case summary of
        Inl f \<Rightarrow> Inl ValidationError
      | Inr s \<Rightarrow>
          Inr \<lparr>ingest_success = ok, ingest_repository_id = rid, ingest_message = msg,
               ingest_processing_summary = s\<rparr>)"

section \<open>core/models/chat\<close>

record conversation_entry =
  role :: string
  content_text :: string

text \<open>\<open>ConversationEntry\<close>: \<open>role\<close> matches \<open>^(user|agent)$\<close>, \<open>content\<close> has 1 to 5000 characters.\<close>

definition role_pattern :: regex where
  "role_pattern = Alt (Str ''user'') (Str ''agent'')"

definition ConversationEntry :: "string \<Rightarrow> string \<Rightarrow> failure + conversation_entry" where
  "ConversationEntry r c =
     (if pattern_matches role_pattern r \<and> 1 \<le> length c \<and> length c \<le> 5000
      then Inr \<lparr>role = r, content_text = c\<rparr>
      else Inl ValidationError)"

text \<open>\<open>^repo-[a-f0-9]{8}$\<close>, as written in \<open>ChatRequest.repository_id\<close>.\<close>

definition chat_repository_id_pattern :: regex where
  "chat_repository_id_pattern =
     Seq (Str ''repo-'') (Repeat 8 (Alt (Range CHR ''a'' CHR ''f'') (Range CHR ''0'' CHR ''9'')))"

text \<open>The check of the \<open>repository_id\<close> field of \<open>ChatRequest\<close>.\<close>

definition chat_repository_id_ok :: "string \<Rightarrow> bool" where
  "chat_repository_id_ok rid = pattern_matches chat_repository_id_pattern rid"

text \<open>
  The declared bound on \<open>conversation_history\<close>,
  \<open>Field(None, max_items=10)\<close>: an absent history passes, a list passes when it
  has at most that many items.
\<close>

definition max_items_ok :: "nat \<Rightarrow> 'a list option \<Rightarrow> bool" where
  "max_items_ok n v = (case v of None \<Rightarrow> True | Some xs \<Rightarrow> length xs \<le> n)"

text \<open>The field validator of \<open>conversation_history\<close>.\<close>

definition validate_conversation_history :: "'a list option \<Rightarrow> pyexc + 'a list option" where
  "validate_conversation_history v =
     (case v of
        None \<Rightarrow> Inr v
      | Some xs \<Rightarrow>
          if length xs > 10
          then Inl (raise ValueError (py_str ''Conversation history limited to 10 entries''))
          else Inr v)"

record chat_request =
  message :: string
  repository_id :: string
  conversation_history :: "conversation_entry list option"

text \<open>The entries of a history are built one by one; the first that fails fails the list.\<close>

fun build_entries :: "(string \<times> string) list \<Rightarrow> failure + conversation_entry list" where
  "build_entries [] = Inr []"
| "build_entries ((r, c) # rest) =
     (case ConversationEntry r c of
        Inl f \<Rightarrow> Inl f
      | Inr entry \<Rightarrow>
          (case build_entries rest of Inl f \<Rightarrow> Inl f | Inr entries \<Rightarrow> Inr (entry # entries)))"

definition build_history ::
  "(string \<times> string) list option \<Rightarrow> failure + conversation_entry list option" where
  "build_history h =
     (case h of
        None \<Rightarrow> Inr None
      | Some raw \<Rightarrow> (case build_entries raw of Inl f \<Rightarrow> Inl f | Inr es \<Rightarrow> Inr (Some es)))"

text \<open>
  Building a \<open>ChatRequest\<close> from a message, a repository id and an optional history
  of (role, content) pairs: the field bounds and patterns, the declared bound on the
  history, then its field validator.
\<close>

definition ChatRequest ::
  "string \<Rightarrow> string \<Rightarrow> (string \<times> string) list option \<Rightarrow> failure + chat_request" where
  "ChatRequest msg rid history =
     (if \<not> (1 \<le> length msg \<and> length msg \<le> 5000) then Inl ValidationError
      else if \<not> chat_repository_id_ok rid then Inl ValidationError
      else case build_history history of
        Inl f \<Rightarrow> Inl ValidationError
      | Inr h \<Rightarrow>
          if \<not> max_items_ok 10 h then Inl ValidationError
          else case validate_conversation_history h of
            Inl e \<Rightarrow> Inl ValidationError
          | Inr h' \<Rightarrow> Inr \<lparr>message = msg, repository_id = rid, conversation_history = h'\<rparr>)"

record file_suggestion =
  file_name :: string
  file_path :: string
  github_url :: string
  description :: string
  relevance_score :: real

record chat_metadata =
  processing_time_ms :: int
  search_strategy :: string

record chat_success =
  response :: string
  file_suggestions :: "file_suggestion list"
  metadata :: chat_metadata

definition file_suggestion_ok :: "file_suggestion \<Rightarrow> bool" where
  "file_suggestion_ok f =
     (1 \<le> length (file_name f) \<and> length (file_name f) \<le> 255 \<and>
      1 \<le> length (file_path f) \<and> length (file_path f) \<le> 1000 \<and>
      1 \<le> length (github_url f) \<and> length (github_url f) \<le> 2000 \<and>
      1 \<le> length (description f) \<and> length (description f) \<le> 5000 \<and>
      0 \<le> relevance_score f \<and> relevance_score f \<le> 1)"

definition chat_metadata_ok :: "chat_metadata \<Rightarrow> bool" where
  "chat_metadata_ok m =
     (0 \<le> processing_time_ms m \<and>
      1 \<le> length (search_strategy m) \<and> length (search_strategy m) \<le> 100)"

definition ChatSuccessResponse ::
  "string \<Rightarrow> file_suggestion list \<Rightarrow> chat_metadata \<Rightarrow> failure + chat_success" where
  "ChatSuccessResponse resp files meta =
     (if 1 \<le> length resp \<and> length resp \<le> 10000 \<and> length files \<le> 20 \<and>
         list_all file_suggestion_ok files \<and> chat_metadata_ok meta
      then Inr \<lparr>response = resp, file_suggestions = files, metadata = meta\<rparr>
      else Inl ValidationError)"

section \<open>apps/api/simulation\_main: the simulated collaborators\<close>

text \<open>The error a model constructor raises inside a collaborator; a \<open>ValueError\<close>.\<close>

definition PydanticValidationError :: pyclass where
  "PydanticValidationError =
     PyClass ''pydantic_core._pydantic_core'' ''ValidationError'' [ValueError]"

text \<open>The truth value of an optional string: \<open>None\<close> and the empty string are false.\<close>

definition truthy :: "string option \<Rightarrow> bool" where
  "truthy t = (case t of None \<Rightarrow> False | Some s \<Rightarrow> s \<noteq> [])"

definition process_ingestion_request :: "ingest_request \<Rightarrow> pyexc + ingest_success" where
  "process_ingestion_request request =
     (if contains (repository_url request) ''invalid-url'' then
        Inl (raise Sim_InvalidURLError (py_str ''Repository URL format is invalid''))
      else if contains (repository_url request) ''not-found'' then
        Inl (raise FileNotFoundError (py_str ''Repository does not exist or is not accessible''))
      else if contains (repository_url request) ''private'' \<and> \<not> truthy (github_token request)
      then
        Inl (raise PermissionError (py_str ''Private repository requires GitHub token''))
      else if truthy (github_token request) \<and>
              contains (the (github_token request)) ''invalid-token'' then
        Inl (raise Sim_InvalidTokenError (py_str ''GitHub token is invalid or expired''))
      else if truthy (github_token request) \<and>
              contains (the (github_token request)) ''insufficient-permissions'' then
        Inl (raise Sim_InsufficientPermissionsError
               (py_str ''Token lacks required repository permissions''))
      else if contains (repository_url request) ''repo-too-large'' then
        Inl (raise Sim_RepoTooLargeError (py_str ''Repository exceeds processing size limits''))
      else if contains (repository_url request) ''processing-failed'' then
        Inl (raise Sim_ProcessingFailedError (py_str ''Repository processing failed''))
      else if contains (repository_url request) ''storage-error'' then
        Inl (raise Sim_StorageError (py_str ''Failed to store repository data''))
      else if contains (repository_url request) ''fail-processing'' then
        Inl (raise Exception (py_str ''Simulated repository processing failure.''))
      else
        (case IngestSuccessResponse True ''repo-a1b2c3d4''
                ''Repository successfully processed and indexed''
                (ProcessingSummary 247 (452 / 10)) of
           Inl f \<Rightarrow> Inl (raise PydanticValidationError [])
         | Inr r \<Rightarrow> Inr r))"

definition process_chat_request :: "chat_request \<Rightarrow> pyexc + chat_success" where
  "process_chat_request request =
     (if repository_id request = ''repo-not-indexed'' then
        Inl (raise FileNotFoundError (py_str ''Repository ID not found in system''))
      else if contains (message request) ''unprocessable'' then
        Inl (raise ValueError (py_str ''Query cannot be processed by agent system''))
      else if contains (message request) ''unavailable'' then
        Inl (raise ConnectionError (py_str ''Chat agent system is unavailable''))
      else
        (case ChatSuccessResponse
                ''User authentication is handled primarily in the authentication module. I found several relevant files that implement different aspects of the authentication system.''
                [\<lparr>file_name = ''auth.js'', file_path = ''/src/utils/auth.js'',
                  github_url = ''https://github.com/facebook/react/blob/main/src/utils/auth.js'',
                  description = ''Core authentication utility module that handles user login validation, token generation, and session management...'',
                  relevance_score = 95 / 100\<rparr>,
                 \<lparr>file_name = ''LoginComponent.jsx'',
                  file_path = ''/src/components/LoginComponent.jsx'',
                  github_url = ''https://github.com/facebook/react/blob/main/src/components/LoginComponent.jsx'',
                  description = ''React component for user login interface. Handles form validation, user input processing, and authentication API calls.'',
                  relevance_score = 87 / 100\<rparr>]
                \<lparr>processing_time_ms = 1247, search_strategy = ''semantic_search''\<rparr> of
           Inl f \<Rightarrow> Inl (raise PydanticValidationError [])
         | Inr r \<Rightarrow> Inr r))"

text \<open>The simulation's routes: the collaborator, then the \<open>except\<close> chain.\<close>

definition sim_ingest_repository :: "ingest_request \<Rightarrow> failure + ingest_success reply" where
  "sim_ingest_repository request =
     (case process_ingestion_request request of
        Inr result \<Rightarrow> Inr (Ok200 result)
      | Inl e \<Rightarrow> map_sum id Err (sim_ingest_except e))"

definition sim_chat_with_repository :: "chat_request \<Rightarrow> failure + chat_success reply" where
  "sim_chat_with_repository request =
     (case process_chat_request request of
        Inr result \<Rightarrow> Inr (Ok200 result)
      | Inl e \<Rightarrow> map_sum id Err (sim_chat_except e))"

section \<open>The HTTP surface\<close>

text \<open>
  What the client receives: a success body with status 200, an error body with the
  status the classifier chose, the framework's 422 for a body that fails the request
  schema, or the framework's bare 500 when the route itself ends with an error or
  returns a value that does not conform to the route's \<open>response_model\<close>.
\<close>

datatype 'r http_response =
  Http200 'r | HttpError json_response | Http422 | Http500

text \<open>
  The \<open>response_model\<close> of the two routes: the constraints of
  \<open>IngestSuccessResponse\<close> and \<open>ChatSuccessResponse\<close>, checked on the value the
  route function returned.
\<close>

definition conforms_IngestSuccessResponse :: "ingest_success \<Rightarrow> bool" where
  "conforms_IngestSuccessResponse r =
     (pattern_matches ingest_repository_id_pattern (ingest_repository_id r) \<and>
      1 \<le> length (ingest_message r) \<and> length (ingest_message r) \<le> 500 \<and>
      0 \<le> files_processed (ingest_processing_summary r) \<and>
      0 \<le> processing_time_seconds (ingest_processing_summary r))"

definition conforms_ChatSuccessResponse :: "chat_success \<Rightarrow> bool" where
  "conforms_ChatSuccessResponse r =
     (1 \<le> length (response r) \<and> length (response r) \<le> 10000 \<and>
      length (file_suggestions r) \<le> 20 \<and>
      list_all file_suggestion_ok (file_suggestions r) \<and> chat_metadata_ok (metadata r))"

text \<open>
  A returned \<open>JSONResponse\<close> is sent as it is; any other returned value is checked
  against the \<open>response_model\<close> first.
\<close>

definition respond :: "('r \<Rightarrow> bool) \<Rightarrow> failure + 'r reply \<Rightarrow> 'r http_response" where
  "respond conforms out =
     (case out of
        Inl f \<Rightarrow> Http500
      | Inr (Ok200 r) \<Rightarrow> if conforms r then Http200 r else Http500
      | Inr (Err j) \<Rightarrow> HttpError j)"

record ingest_body =
  body_repository_url :: string
  body_github_token :: "string option"

record chat_body =
  body_message :: string
  body_repository_id :: string
  body_conversation_history :: "(string \<times> string) list option"

text \<open>
  \<open>POST /api/ingest\<close> and \<open>POST /api/chat\<close>. The framework builds the request
  model from the body before the route function runs and answers 422 when that
  fails. The route function invokes the collaborator once, with the request it was
  given; \<open>calls\<close> is the sequence of requests the collaborator has been invoked with
  so far, returned extended by this one when the route runs.
\<close>

definition post_api_ingest ::
  "(ingest_request \<Rightarrow> pyexc + ingest_success) \<Rightarrow> ingest_body \<Rightarrow> ingest_request list
     \<Rightarrow> ingest_success http_response \<times> ingest_request list" where
  "post_api_ingest process_repository body calls =
     (case IngestRequest (body_repository_url body) (body_github_token body) of
        Inl f \<Rightarrow> (Http422, calls)
      | Inr request \<Rightarrow>
          (respond conforms_IngestSuccessResponse
             (ingest_repository process_repository request),
           calls @ [request]))"

definition sim_post_api_ingest ::
  "ingest_body \<Rightarrow> ingest_request list
     \<Rightarrow> ingest_success http_response \<times> ingest_request list" where
  "sim_post_api_ingest body calls =
     (case IngestRequest (body_repository_url body) (body_github_token body) of
        Inl f \<Rightarrow> (Http422, calls)
      | Inr request \<Rightarrow>
          (respond conforms_IngestSuccessResponse (sim_ingest_repository request),
           calls @ [request]))"

definition post_api_chat ::
  "(chat_request \<Rightarrow> pyexc + chat_success) \<Rightarrow> chat_body \<Rightarrow> chat_request list
     \<Rightarrow> chat_success http_response \<times> chat_request list" where
  "post_api_chat process_query body calls =
     (case ChatRequest (body_message body) (body_repository_id body)
             (body_conversation_history body) of
        Inl f \<Rightarrow> (Http422, calls)
      | Inr request \<Rightarrow>
          (respond conforms_ChatSuccessResponse
             (chat_with_repository process_query request),
           calls @ [request]))"

definition sim_post_api_chat ::
  "chat_body \<Rightarrow> chat_request list \<Rightarrow> chat_success http_response \<times> chat_request list"
where
  "sim_post_api_chat body calls =
     (case ChatRequest (body_message body) (body_repository_id body)
             (body_conversation_history body) of
        Inl f \<Rightarrow> (Http422, calls)
      | Inr request \<Rightarrow>
          (respond conforms_ChatSuccessResponse (sim_chat_with_repository request),
           calls @ [request]))"

subsection \<open>\<open>GET /\<close>\<close>

text \<open>A JSON object with string values, as its list of members.\<close>

type_synonym json_object = "(string \<times> string) list"

text \<open>apps/api/routes/health\<close>

definition health_check :: json_object where
  "health_check = [(''status'', ''healthy''), (''service'', ''agents-locate-api'')]"

text \<open>apps/api/simulation\_main\<close>

definition read_root :: json_object where
  "read_root = [(''Hello'', ''World'')]"

text \<open>The route of each app; the request plays no part.\<close>

definition get_root :: "'req \<Rightarrow> json_object http_response" where
  "get_root request = Http200 health_check"

definition sim_get_root :: "'req \<Rightarrow> json_object http_response" where
  "sim_get_root request = Http200 read_root"

text \<open>
  The shape \<open>{"status": "healthy", "service": <name>}\<close>: exactly these two members,
  \<open>status\<close> being \<open>healthy\<close>.
\<close>

definition healthy_body :: "json_object \<Rightarrow> bool" where
  "healthy_body b =
     (set (map fst b) = {''status'', ''service''} \<and> length b = 2 \<and>
      map_of b ''status'' = Some ''healthy'')"

section \<open>The language of a regular expression\<close>

text \<open>
  What it means for a string to match: the usual language of a regular expression.
  The matcher above is checked against it below.
\<close>

inductive_set star :: "string set \<Rightarrow> string set" for A :: "string set" where
  star_empty: "[] \<in> star A"
| star_step: "u \<in> A \<Longrightarrow> v \<in> star A \<Longrightarrow> u @ v \<in> star A"

fun lang :: "regex \<Rightarrow> string set" where
  "lang Nothing = {}"
| "lang Eps = {[]}"
| "lang (Range lo hi) = {[c] | c. in_range lo hi c}"
| "lang (Seq r s) = {u @ v | u v. u \<in> lang r \<and> v \<in> lang s}"
| "lang (Alt r s) = lang r \<union> lang s"
| "lang (Star r) = star (lang r)"

section \<open>Facts about the class hierarchy\<close>

lemmas builtin_defs = BaseException_def Exception_def ValueError_def OSError_def
  FileNotFoundError_def PermissionError_def ConnectionError_def RuntimeError_def
  NotImplementedError_def

lemmas taxonomy_defs = exceptions_module_def InvalidURLError_def InvalidTokenError_def
  InsufficientPermissionsError_def RepoTooLargeError_def ProcessingFailedError_def
  StorageError_def UnsupportedFormatError_def

lemmas sim_taxonomy_defs = simulation_module_def Sim_InvalidURLError_def
  Sim_InvalidTokenError_def Sim_InsufficientPermissionsError_def Sim_RepoTooLargeError_def
  Sim_ProcessingFailedError_def Sim_StorageError_def Sim_UnsupportedFormatError_def

lemma well_formed_py_str: "well_formed (py_str s)"
proof -
  have "(of_char c :: nat) < 0xD800" for c
    by (rule less_trans [OF nat_of_char_less_256]) simp
  then show ?thesis by (simp add: well_formed_def py_str_def list_all_iff)
qed

lemma str_field_ok_py_str:
  "str_field_ok lo hi (py_str s) = (lo \<le> length s \<and> length s \<le> hi)"
  by (simp add: str_field_ok_def well_formed_py_str) (simp add: py_str_def)

lemmas handler_defs = isinstance_def raise_def JSONResponse_def IngestErrorResponse_def
  ChatErrorResponse_def classification_def str_field_ok_py_str

lemma swap_module_invol: "swap_module (swap_module m) = m"
  by (simp add: exceptions_module_def simulation_module_def)

lemma twin_twin: "twin (twin c) = c"
  by (induction c) (simp add: swap_module_invol map_idI del: swap_module.simps)

lemma twin_eq_iff: "twin c = twin d \<longleftrightarrow> c = d"
  by (metis twin_twin)

lemma issubclass_twin: "issubclass (twin c) (twin d) = issubclass c d"
proof (induction c d rule: issubclass.induct)
  case (1 m n bs d)
  have "twin (PyClass m n bs) = twin d \<longleftrightarrow> PyClass m n bs = d"
    by (rule twin_eq_iff)
  moreover have "list_ex (\<lambda>b. issubclass b (twin d)) (map twin bs)
                 = list_ex (\<lambda>b. issubclass b d) bs"
    using 1 by (simp add: list_ex_iff)
  ultimately show ?case by (simp del: swap_module.simps)
qed

lemma twin_builtin:
  "twin Exception = Exception" "twin ValueError = ValueError"
  "twin FileNotFoundError = FileNotFoundError" "twin PermissionError = PermissionError"
  "twin ConnectionError = ConnectionError" "twin NotImplementedError = NotImplementedError"
  by (simp_all add: builtin_defs exceptions_module_def simulation_module_def)

lemma twin_taxonomy:
  "twin InvalidURLError = Sim_InvalidURLError"
  "twin InvalidTokenError = Sim_InvalidTokenError"
  "twin InsufficientPermissionsError = Sim_InsufficientPermissionsError"
  "twin RepoTooLargeError = Sim_RepoTooLargeError"
  "twin ProcessingFailedError = Sim_ProcessingFailedError"
  "twin StorageError = Sim_StorageError"
  by (simp_all add: builtin_defs taxonomy_defs sim_taxonomy_defs)

lemma isinstance_twin_builtin:
  "isinstance (twin_exc e) Exception = isinstance e Exception"
  "isinstance (twin_exc e) ValueError = isinstance e ValueError"
  "isinstance (twin_exc e) FileNotFoundError = isinstance e FileNotFoundError"
  "isinstance (twin_exc e) PermissionError = isinstance e PermissionError"
  "isinstance (twin_exc e) ConnectionError = isinstance e ConnectionError"
  "isinstance (twin_exc e) NotImplementedError = isinstance e NotImplementedError"
  using issubclass_twin [of "exc_class e" Exception]
        issubclass_twin [of "exc_class e" ValueError]
        issubclass_twin [of "exc_class e" FileNotFoundError]
        issubclass_twin [of "exc_class e" PermissionError]
        issubclass_twin [of "exc_class e" ConnectionError]
        issubclass_twin [of "exc_class e" NotImplementedError]
  by (simp_all add: isinstance_def twin_exc_def twin_builtin)

lemma isinstance_twin_taxonomy:
  "isinstance (twin_exc e) Sim_InvalidURLError = isinstance e InvalidURLError"
  "isinstance (twin_exc e) Sim_InvalidTokenError = isinstance e InvalidTokenError"
  "isinstance (twin_exc e) Sim_InsufficientPermissionsError
     = isinstance e InsufficientPermissionsError"
  "isinstance (twin_exc e) Sim_RepoTooLargeError = isinstance e RepoTooLargeError"
  "isinstance (twin_exc e) Sim_ProcessingFailedError = isinstance e ProcessingFailedError"
  "isinstance (twin_exc e) Sim_StorageError = isinstance e StorageError"
  using issubclass_twin [of "exc_class e" InvalidURLError]
        issubclass_twin [of "exc_class e" InvalidTokenError]
        issubclass_twin [of "exc_class e" InsufficientPermissionsError]
        issubclass_twin [of "exc_class e" RepoTooLargeError]
        issubclass_twin [of "exc_class e" ProcessingFailedError]
        issubclass_twin [of "exc_class e" StorageError]
  by (simp_all add: isinstance_def twin_exc_def twin_taxonomy)

lemma exc_str_twin: "exc_str (twin_exc e) = exc_str e"
  by (simp add: twin_exc_def)

section \<open>The matcher decides the language\<close>

lemma nullable_iff: "nullable r \<longleftrightarrow> [] \<in> lang r"
  by (induction r) (auto intro: star.star_empty)

lemma lang_seq: "lang (seq r s) = lang (Seq r s)"
  by (cases r) auto

lemma lang_alt: "lang (alt r s) = lang (Alt r s)"
  by (cases r; cases s) auto

lemma star_cons:
  "c # w \<in> star A \<longleftrightarrow> (\<exists>u v. c # u \<in> A \<and> v \<in> star A \<and> w = u @ v)"
proof
  assume "c # w \<in> star A"
  then show "\<exists>u v. c # u \<in> A \<and> v \<in> star A \<and> w = u @ v"
  proof (induction "c # w" arbitrary: w rule: star.induct)
    case (star_step u v)
    then show ?case by (cases u) auto
  qed
next
  assume "\<exists>u v. c # u \<in> A \<and> v \<in> star A \<and> w = u @ v"
  then obtain u v where "c # u \<in> A" "v \<in> star A" "w = u @ v" by blast
  then show "c # w \<in> star A" using star.star_step [of "c # u" A v] by simp
qed

lemma lang_deriv: "lang (deriv c r) = {w. c # w \<in> lang r}"
proof (induction r)
  case (Seq r s)
  show ?case
  proof (rule set_eqI)
    fix w
    have "c # w \<in> lang (Seq r s) \<longleftrightarrow>
          (\<exists>u v. c # u \<in> lang r \<and> v \<in> lang s \<and> w = u @ v) \<or> ([] \<in> lang r \<and> c # w \<in> lang s)"
      by (auto simp add: Cons_eq_append_conv)
    then show "w \<in> lang (deriv c (Seq r s)) \<longleftrightarrow> w \<in> {w. c # w \<in> lang (Seq r s)}"
      using Seq by (auto simp add: lang_alt lang_seq nullable_iff)
  qed
next
  case (Star r)
  then show ?case by (auto simp add: lang_seq star_cons)
qed (auto simp add: lang_alt)

lemma fullmatch_iff: "fullmatch r w \<longleftrightarrow> w \<in> lang r"
  by (induction w arbitrary: r) (simp_all add: nullable_iff lang_deriv)

section \<open>The classification tables\<close>

lemmas class_defs = builtin_defs taxonomy_defs
lemmas route_defs = ingest_repository_def chat_with_repository_def
  handle_ingestion_error_def handle_chat_error_def error_reply_def

text \<open>
  Each row of the two classification tables, for a message the error model accepts
  (well-formed text of 1 to 1000 characters): when the collaborator raises an
  exception of the row's class, the route answers with the row's status and
  \<open>error_code\<close>. The two \<open>NotImplemented\<close> rows answer with their own fixed text.
\<close>

lemma classification_tables_accepted_text:
  assumes "str_field_ok 1 1000 msg"
  shows
  "(process request = Inl (raise InvalidURLError msg) \<longrightarrow>
      ingest_repository process request = error_reply 400 ''INVALID_URL'' msg) \<and>
   (process request = Inl (raise InvalidTokenError msg) \<longrightarrow>
      ingest_repository process request = error_reply 401 ''INVALID_TOKEN'' msg) \<and>
   (process request = Inl (raise InsufficientPermissionsError msg) \<longrightarrow>
      ingest_repository process request = error_reply 403 ''INSUFFICIENT_PERMISSIONS'' msg) \<and>
   (process request = Inl (raise FileNotFoundError msg) \<longrightarrow>
      ingest_repository process request = error_reply 404 ''REPO_NOT_FOUND'' msg) \<and>
   (process request = Inl (raise PermissionError msg) \<longrightarrow>
      ingest_repository process request = error_reply 401 ''PRIVATE_REPO_NO_TOKEN'' msg) \<and>
   (process request = Inl (raise RepoTooLargeError msg) \<longrightarrow>
      ingest_repository process request = error_reply 422 ''REPO_TOO_LARGE'' msg) \<and>
   (process request = Inl (raise ProcessingFailedError msg) \<longrightarrow>
      ingest_repository process request = error_reply 422 ''PROCESSING_FAILED'' msg) \<and>
   (process request = Inl (raise StorageError msg) \<longrightarrow>
      ingest_repository process request = error_reply 500 ''STORAGE_ERROR'' msg) \<and>
   (process request = Inl (raise NotImplementedError msg) \<longrightarrow>
      ingest_repository process request
        = error_reply 501 ''NOT_IMPLEMENTED'' (py_str ''Ingestion agent not yet implemented'')) \<and>
   (query chat_request = Inl (raise FileNotFoundError msg) \<longrightarrow>
      chat_with_repository query chat_request = error_reply 404 ''REPO_NOT_INDEXED'' msg) \<and>
   (query chat_request = Inl (raise ValueError msg) \<longrightarrow>
      chat_with_repository query chat_request
        = error_reply 422 ''QUERY_PROCESSING_FAILED'' msg) \<and>
   (query chat_request = Inl (raise ConnectionError msg) \<longrightarrow>
      chat_with_repository query chat_request = error_reply 500 ''AGENT_UNAVAILABLE'' msg) \<and>
   (query chat_request = Inl (raise NotImplementedError msg) \<longrightarrow>
      chat_with_repository query chat_request
        = error_reply 501 ''NOT_IMPLEMENTED'' (py_str ''Chat agent not yet implemented''))"
  using assms
  by (simp add: route_defs handler_defs class_defs)

text \<open>
  C1. The rows that pass \<open>str(error)\<close> on do not hold for every message: when the
  collaborator raises the row's class with an empty message, the route ends with the
  error model's validation error and answers with no status and \<open>error_code\<close> of its
  own. So it is for all eight such rows of the ingestion table and all three of the
  chat table.
\<close>

theorem table_rows_without_reply:
  "ingest_repository (\<lambda>q::unit. Inl (raise InvalidURLError []) :: pyexc + unit) ()
     = Inl ValidationError \<and>
   ingest_repository (\<lambda>q::unit. Inl (raise InvalidTokenError []) :: pyexc + unit) ()
     = Inl ValidationError \<and>
   ingest_repository
     (\<lambda>q::unit. Inl (raise InsufficientPermissionsError []) :: pyexc + unit) ()
     = Inl ValidationError \<and>
   ingest_repository (\<lambda>q::unit. Inl (raise FileNotFoundError []) :: pyexc + unit) ()
     = Inl ValidationError \<and>
   ingest_repository (\<lambda>q::unit. Inl (raise PermissionError []) :: pyexc + unit) ()
     = Inl ValidationError \<and>
   ingest_repository (\<lambda>q::unit. Inl (raise RepoTooLargeError []) :: pyexc + unit) ()
     = Inl ValidationError \<and>
   ingest_repository (\<lambda>q::unit. Inl (raise ProcessingFailedError []) :: pyexc + unit) ()
     = Inl ValidationError \<and>
   ingest_repository (\<lambda>q::unit. Inl (raise StorageError []) :: pyexc + unit) ()
     = Inl ValidationError \<and>
   chat_with_repository (\<lambda>q::unit. Inl (raise FileNotFoundError []) :: pyexc + unit) ()
     = Inl ValidationError \<and>
   chat_with_repository (\<lambda>q::unit. Inl (raise ValueError []) :: pyexc + unit) ()
     = Inl ValidationError \<and>
   chat_with_repository (\<lambda>q::unit. Inl (raise ConnectionError []) :: pyexc + unit) ()
     = Inl ValidationError"
  by (simp add: route_defs handler_defs class_defs str_field_ok_def)

section \<open>The catch-all branch\<close>

text \<open>
  An exception that no earlier branch of a classifier matches is answered with
  status 500, \<open>error_code\<close> AGENT\_ERROR and a fixed text, whatever the exception and
  whatever its own message: the two right-hand sides below do not mention \<open>e\<close>.
\<close>

lemma unclassified_is_agent_error:
  "(\<not> isinstance e InvalidURLError \<and> \<not> isinstance e InvalidTokenError \<and>
    \<not> isinstance e InsufficientPermissionsError \<and> \<not> isinstance e FileNotFoundError \<and>
    \<not> isinstance e PermissionError \<and> \<not> isinstance e RepoTooLargeError \<and>
    \<not> isinstance e ProcessingFailedError \<and> \<not> isinstance e StorageError \<and>
    \<not> isinstance e NotImplementedError \<longrightarrow>
      handle_ingestion_error e =
        Inr \<lparr>status_code = 500,
             content = \<lparr>success = False,
               error = py_str ''An unexpected error occurred during repository processing.'',
               error_code = py_str ''AGENT_ERROR''\<rparr>\<rparr>) \<and>
   (\<not> isinstance e FileNotFoundError \<and> \<not> isinstance e ValueError \<and>
    \<not> isinstance e ConnectionError \<and> \<not> isinstance e NotImplementedError \<longrightarrow>
      handle_chat_error e =
        Inr \<lparr>status_code = 500,
             content = \<lparr>success = False,
               error = py_str ''An unexpected error occurred while processing the chat request.'',
               error_code = py_str ''AGENT_ERROR''\<rparr>\<rparr>)"
  by (simp add: handle_ingestion_error_def handle_chat_error_def JSONResponse_def
      IngestErrorResponse_def ChatErrorResponse_def str_field_ok_py_str)

text \<open>
  C3. The classifiers are not total. An exception that an earlier branch matches is
  answered with its own text, and when the error model refuses that text (it is
  empty, longer than 1000 characters, or not well-formed) the classifier raises
  instead of returning a status, an \<open>error_code\<close> and a message.
\<close>

theorem classifier_not_total:
  "handle_chat_error (raise ValueError []) = Inl ValidationError \<and>
   handle_chat_error (raise ConnectionError [0xDC80]) = Inl ValidationError \<and>
   handle_ingestion_error (raise InvalidTokenError (replicate 1001 (of_char CHR ''x'')))
     = Inl ValidationError \<and>
   handle_ingestion_error (raise StorageError [0xDC80]) = Inl ValidationError"
  by (simp add: handle_ingestion_error_def handle_chat_error_def handler_defs class_defs
      str_field_ok_def well_formed_def)

section \<open>The real router against the simulation router\<close>

text \<open>
  The real handlers have a branch for \<open>NotImplementedError\<close> (501, NOT\_IMPLEMENTED);
  the simulation's \<open>except\<close> chains have none, so there it reaches
  \<open>except Exception\<close> (500, AGENT\_ERROR).
\<close>

theorem not_implemented_routers_differ:
  "classification (handle_ingestion_error (raise NotImplementedError (py_str ''Ingestion agent integration pending'')))
     = Some (501, py_str ''NOT_IMPLEMENTED'')
   \<and> classification (sim_ingest_except (raise NotImplementedError (py_str ''Ingestion agent integration pending'')))
     = Some (500, py_str ''AGENT_ERROR'')
   \<and> classification (handle_chat_error (raise NotImplementedError (py_str ''Chat agent integration pending'')))
     = Some (501, py_str ''NOT_IMPLEMENTED'')
   \<and> classification (sim_chat_except (raise NotImplementedError (py_str ''Chat agent integration pending'')))
     = Some (500, py_str ''AGENT_ERROR'')"
  by (simp add: handle_ingestion_error_def sim_ingest_except_def handle_chat_error_def
      sim_chat_except_def handler_defs class_defs sim_taxonomy_defs)

text \<open>
  C2, amended. For every \<open>Exception\<close> that is not a \<open>NotImplementedError\<close>: the
  real ingestion handler answers as the simulation's chain answers the same failure
  raised with the simulation's own copies of the taxonomy classes; the real chat
  handler answers as the simulation's chat chain answers the very same exception. The
  outcomes are equal as a whole: status, \<open>error_code\<close> and text, or the same failure.
\<close>

theorem routers_agree_except_not_implemented:
  assumes "isinstance e Exception" and "\<not> isinstance e NotImplementedError"
  shows "handle_ingestion_error e = sim_ingest_except (twin_exc e)
       \<and> handle_chat_error e = sim_chat_except e"
  using assms
  by (simp add: handle_ingestion_error_def sim_ingest_except_def handle_chat_error_def
      sim_chat_except_def isinstance_twin_builtin isinstance_twin_taxonomy exc_str_twin)

theorem routers_agree_except_not_implemented_witness:
  "handle_ingestion_error (raise InvalidURLError (py_str ''Repository URL format is invalid''))
     = sim_ingest_except (raise Sim_InvalidURLError (py_str ''Repository URL format is invalid''))
   \<and> handle_chat_error (raise InvalidURLError (py_str ''Repository URL format is invalid''))
     = sim_chat_except (raise InvalidURLError (py_str ''Repository URL format is invalid''))"
proof -
  let ?e = "raise InvalidURLError (py_str ''Repository URL format is invalid'')"
  have a: "isinstance ?e Exception" by (simp add: isinstance_def raise_def class_defs)
  have b: "\<not> isinstance ?e NotImplementedError"
    by (simp add: isinstance_def raise_def class_defs)
  have c: "twin_exc ?e = raise Sim_InvalidURLError (py_str ''Repository URL format is invalid'')"
    by (simp add: twin_exc_def raise_def twin_taxonomy)
  from routers_agree_except_not_implemented [OF a b] c show ?thesis by simp
qed

section \<open>Messages the error model refuses\<close>

text \<open>
  C4. The branches that pass \<open>str(error)\<close> to the error model build nothing when
  that text is empty, longer than 1000 characters or not well-formed (a surrogate
  code point on its own): the model's constructor raises
  inside the \<open>except\<close> block, and the route ends with that error instead of a reply.
\<close>

theorem error_response_construction_fails:
  "ingest_repository (\<lambda>q::unit. Inl (raise InvalidURLError []) :: pyexc + unit) ()
     = Inl ValidationError
   \<and> chat_with_repository
       (\<lambda>q::unit. Inl (raise ValueError (replicate 1001 (of_char CHR ''x''))) :: pyexc + unit) ()
     = Inl ValidationError
   \<and> chat_with_repository (\<lambda>q::unit. Inl (raise ValueError [0xDC80]) :: pyexc + unit) ()
     = Inl ValidationError"
  by (simp add: route_defs handler_defs class_defs str_field_ok_def well_formed_def)

section \<open>\<open>ValueError\<close> in the chat classifier\<close>

text \<open>
  The \<open>FileNotFoundError\<close> test comes first, so an exception that is both a
  \<open>FileNotFoundError\<close> and a \<open>ValueError\<close> is answered 404.
\<close>

theorem value_error_after_file_not_found:
  "isinstance (raise MissingValueError (py_str ''no such value'')) ValueError
   \<and> classification (handle_chat_error (raise MissingValueError (py_str ''no such value'')))
       = Some (404, py_str ''REPO_NOT_INDEXED'')"
  by (simp add: handle_chat_error_def handler_defs class_defs MissingValueError_def)

text \<open>
  C10, amended. In the chat classifier every instance of \<open>ValueError\<close> that is not
  also an instance of \<open>FileNotFoundError\<close>, with a message the error model accepts
  (well-formed text of 1 to 1000 characters), is answered (422, QUERY\_PROCESSING\_FAILED); the ingestion classes
  \<open>InvalidURLError\<close>, \<open>InvalidTokenError\<close> and \<open>RepoTooLargeError\<close> are such
  instances.
\<close>

theorem value_error_is_query_processing_failed:
  assumes "str_field_ok 1 1000 (exc_str e)"
  shows "(isinstance e ValueError \<and> \<not> isinstance e FileNotFoundError \<longrightarrow>
            classification (handle_chat_error e) = Some (422, py_str ''QUERY_PROCESSING_FAILED''))
       \<and> (exc_class e \<in> {InvalidURLError, InvalidTokenError, RepoTooLargeError} \<longrightarrow>
            isinstance e ValueError \<and> \<not> isinstance e FileNotFoundError)"
  using assms
  by (auto simp add: handle_chat_error_def handler_defs class_defs)

theorem value_error_is_query_processing_failed_witness:
  "classification (handle_chat_error (raise InvalidTokenError (py_str ''GitHub token is invalid or expired'')))
     = Some (422, py_str ''QUERY_PROCESSING_FAILED'')"
proof -
  let ?e = "raise InvalidTokenError (py_str ''GitHub token is invalid or expired'')"
  have len: "str_field_ok 1 1000 (exc_str ?e)"
    by (simp add: raise_def str_field_ok_py_str)
  have cls: "exc_class ?e \<in> {InvalidURLError, InvalidTokenError, RepoTooLargeError}"
    by (simp add: raise_def)
  from value_error_is_query_processing_failed [OF len] cls show ?thesis by blast
qed

section \<open>The two bounds on the conversation history\<close>

text \<open>
  C6. The declared bound \<open>max_items=10\<close> and the field validator accept the same
  histories: an absent one and lists of at most 10 entries. A list of 11 or more
  entries is refused by the declared bound and makes the validator raise.
\<close>

theorem history_checks_agree:
  "(max_items_ok 10 v \<longleftrightarrow> validate_conversation_history v = Inr v)
   \<and> (11 \<le> length xs \<longrightarrow>
        \<not> max_items_ok 10 (Some xs)
        \<and> validate_conversation_history (Some xs)
            = Inl (raise ValueError (py_str ''Conversation history limited to 10 entries'')))
   \<and> (length xs \<le> 10 \<longrightarrow>
        max_items_ok 10 (Some xs) \<and> validate_conversation_history (Some xs) = Inr (Some xs))"
  by (auto simp add: max_items_ok_def validate_conversation_history_def split: option.splits)

theorem history_checks_agree_witness:
  "\<not> max_items_ok 10 (Some (replicate 11 (''user'', ''hi'')))
   \<and> validate_conversation_history (Some (replicate 11 (''user'', ''hi'')))
       = Inl (raise ValueError (py_str ''Conversation history limited to 10 entries''))
   \<and> max_items_ok 10 (Some (replicate 10 (''user'', ''hi'')))
   \<and> validate_conversation_history (Some (replicate 10 (''user'', ''hi'')))
       = Inr (Some (replicate 10 (''user'', ''hi'')))"
  using history_checks_agree [of "Some (replicate 11 (''user'', ''hi''))" "replicate 11 (''user'', ''hi'')"]
        history_checks_agree [of "Some (replicate 10 (''user'', ''hi''))" "replicate 10 (''user'', ''hi'')"]
  by simp

section \<open>The repository identifier, from ingestion to chat\<close>

lemma repository_id_patterns_equal:
  "ingest_repository_id_pattern = chat_repository_id_pattern"
  by (simp add: ingest_repository_id_pattern_def chat_repository_id_pattern_def)

lemma IngestSuccessResponse_id:
  "IngestSuccessResponse ok rid msg summary = Inr r \<Longrightarrow>
     ingest_repository_id r = rid \<and> pattern_matches ingest_repository_id_pattern rid"
  by (auto simp add: IngestSuccessResponse_def split: if_splits sum.splits)

lemmas id_regex_defs = chat_repository_id_pattern_def ingest_repository_id_pattern_def
  Lit_def in_range_def pattern_matches_def chat_repository_id_ok_def eval_nat_numeral

lemma simulated_success:
  "IngestSuccessResponse True ''repo-a1b2c3d4''
      ''Repository successfully processed and indexed'' (ProcessingSummary 247 (452 / 10))
   = Inr \<lparr>ingest_success = True, ingest_repository_id = ''repo-a1b2c3d4'',
          ingest_message = ''Repository successfully processed and indexed'',
          ingest_processing_summary =
            \<lparr>files_processed = 247, processing_time_seconds = 452 / 10\<rparr>\<rparr>"
  by (simp add: IngestSuccessResponse_def ProcessingSummary_def id_regex_defs)

lemma process_ingestion_request_success:
  "process_ingestion_request request = Inr r \<Longrightarrow> ingest_repository_id r = ''repo-a1b2c3d4''"
  unfolding process_ingestion_request_def simulated_success
  by (auto split: if_splits)

text \<open>
  The simulated collaborator on a well-formed request with no triggering substring.
\<close>

lemma scenario_C:
  "process_ingestion_request \<lparr>repository_url = ''https://github.com/foo/bar'', github_token = None\<rparr>
   = Inr \<lparr>ingest_success = True, ingest_repository_id = ''repo-a1b2c3d4'',
          ingest_message = ''Repository successfully processed and indexed'',
          ingest_processing_summary =
            \<lparr>files_processed = 247, processing_time_seconds = 452 / 10\<rparr>\<rparr>"
  unfolding process_ingestion_request_def simulated_success
  by (simp add: truthy_def)

text \<open>
  C7. The \<open>repository_id\<close> of every \<open>IngestSuccessResponse\<close> that could be built,
  and so of every success the simulated ingestion returns (\<open>repo-a1b2c3d4\<close>),
  passes the check of the \<open>repository_id\<close> field of \<open>ChatRequest\<close>.
\<close>

theorem ingested_id_accepted_by_chat:
  "(IngestSuccessResponse ok rid msg summary = Inr r \<longrightarrow>
      chat_repository_id_ok (ingest_repository_id r))
   \<and> (process_ingestion_request request = Inr r \<longrightarrow>
      chat_repository_id_ok (ingest_repository_id r))"
proof (intro conjI impI)
  assume "IngestSuccessResponse ok rid msg summary = Inr r"
  from IngestSuccessResponse_id [OF this]
  show "chat_repository_id_ok (ingest_repository_id r)"
    by (simp add: chat_repository_id_ok_def repository_id_patterns_equal)
next
  assume "process_ingestion_request request = Inr r"
  from process_ingestion_request_success [OF this]
  show "chat_repository_id_ok (ingest_repository_id r)"
    by (simp add: id_regex_defs)
qed

theorem ingested_id_accepted_by_chat_witness:
  "chat_repository_id_ok ''repo-a1b2c3d4''"
  using ingested_id_accepted_by_chat [of True "''repo-a1b2c3d4''"
      "''Repository successfully processed and indexed''" "ProcessingSummary 247 (452 / 10)"
      "\<lparr>ingest_success = True, ingest_repository_id = ''repo-a1b2c3d4'',
          ingest_message = ''Repository successfully processed and indexed'',
          ingest_processing_summary =
            \<lparr>files_processed = 247, processing_time_seconds = 452 / 10\<rparr>\<rparr>"
      "\<lparr>repository_url = ''https://github.com/foo/bar'', github_token = None\<rparr>"]
    simulated_success scenario_C
  by simp

section \<open>Request validation before the collaborator\<close>

lemmas regex_defs = github_pattern_def github_name_char_def Lit_def Plus_def Opt_def
  in_range_def re_match_def pattern_matches_def

text \<open>A well-formed URL passes validation and the simulated collaborator is invoked with it.\<close>

lemma valid_url_reaches_collaborator:
  "snd (sim_post_api_ingest
     \<lparr>body_repository_url = ''https://github.com/foo/bar'', body_github_token = None\<rparr> [])
   = [\<lparr>repository_url = ''https://github.com/foo/bar'', github_token = None\<rparr>]"
  by (simp add: sim_post_api_ingest_def IngestRequest_def validate_github_url_def regex_defs)

text \<open>
  A body whose \<open>repository_url\<close> the field validator's \<open>re.match\<close> refuses, or that
  is shorter than 19 or longer than 200 characters, is answered 422 in both apps, and
  the sequence of collaborator invocations is left as it was.
\<close>

lemma refused_url_never_reaches_collaborator:
  assumes "\<not> re_match github_pattern (body_repository_url body)
           \<or> length (body_repository_url body) < 19
           \<or> 200 < length (body_repository_url body)"
  shows "post_api_ingest process_repository body calls = (Http422, calls)
       \<and> sim_post_api_ingest body calls = (Http422, calls)"
  using assms
  by (auto simp add: post_api_ingest_def sim_post_api_ingest_def IngestRequest_def
      validate_github_url_def)

text \<open>
  C5. A URL that does not match the GitHub pattern can pass validation and reach the
  collaborator: \<open>https://github.com/foo/bar\<close> followed by a newline is not in the
  language of the pattern, yet \<open>re.match\<close> accepts it, because \<open>$\<close> also matches
  before a final newline. The simulation app answers it 200 and the real app 501, each
  after invoking its collaborator with the request.
\<close>

theorem trailing_newline_url_reaches_collaborator:
  "''https://github.com/foo/bar'' @ [CHR 0x0A] \<notin> lang github_pattern
   \<and> sim_post_api_ingest
       \<lparr>body_repository_url = ''https://github.com/foo/bar'' @ [CHR 0x0A],
        body_github_token = None\<rparr> []
     = (Http200
          \<lparr>ingest_success = True, ingest_repository_id = ''repo-a1b2c3d4'',
           ingest_message = ''Repository successfully processed and indexed'',
           ingest_processing_summary =
             \<lparr>files_processed = 247, processing_time_seconds = 452 / 10\<rparr>\<rparr>,
        [\<lparr>repository_url = ''https://github.com/foo/bar'' @ [CHR 0x0A],
          github_token = None\<rparr>])
   \<and> post_api_ingest IngestionService_process_repository
       \<lparr>body_repository_url = ''https://github.com/foo/bar'' @ [CHR 0x0A],
        body_github_token = None\<rparr> []
     = (HttpError
          \<lparr>status_code = 501,
           content = \<lparr>success = False,
             error = py_str ''Ingestion agent not yet implemented'',
             error_code = py_str ''NOT_IMPLEMENTED''\<rparr>\<rparr>,
        [\<lparr>repository_url = ''https://github.com/foo/bar'' @ [CHR 0x0A],
          github_token = None\<rparr>])"
proof (intro conjI)
  let ?url = "''https://github.com/foo/bar'' @ [CHR 0x0A]"
  let ?request = "\<lparr>repository_url = ?url, github_token = None\<rparr>"
  have "\<not> fullmatch github_pattern ?url"
    by (simp add: regex_defs)
  then show "?url \<notin> lang github_pattern"
    by (simp add: fullmatch_iff)
  have valid: "IngestRequest ?url None = Inr ?request"
    by (simp add: IngestRequest_def validate_github_url_def regex_defs)
  have sim: "process_ingestion_request ?request
      = Inr \<lparr>ingest_success = True, ingest_repository_id = ''repo-a1b2c3d4'',
           ingest_message = ''Repository successfully processed and indexed'',
           ingest_processing_summary =
             \<lparr>files_processed = 247, processing_time_seconds = 452 / 10\<rparr>\<rparr>"
    unfolding process_ingestion_request_def simulated_success
    by (simp add: truthy_def)
  show "sim_post_api_ingest \<lparr>body_repository_url = ?url, body_github_token = None\<rparr> []
     = (Http200
          \<lparr>ingest_success = True, ingest_repository_id = ''repo-a1b2c3d4'',
           ingest_message = ''Repository successfully processed and indexed'',
           ingest_processing_summary =
             \<lparr>files_processed = 247, processing_time_seconds = 452 / 10\<rparr>\<rparr>,
        [?request])"
    using valid sim
    by (simp add: sim_post_api_ingest_def sim_ingest_repository_def respond_def
        conforms_IngestSuccessResponse_def id_regex_defs)
  show "post_api_ingest IngestionService_process_repository
       \<lparr>body_repository_url = ?url, body_github_token = None\<rparr> []
     = (HttpError
          \<lparr>status_code = 501,
           content = \<lparr>success = False,
             error = py_str ''Ingestion agent not yet implemented'',
             error_code = py_str ''NOT_IMPLEMENTED''\<rparr>\<rparr>,
        [?request])"
    using valid
    by (simp add: post_api_ingest_def respond_def route_defs handler_defs class_defs
        IngestionService_process_repository_def)
qed

section \<open>The simulation's \<open>repo-not-indexed\<close> trigger\<close>

lemma not_indexed_literal: "\<not> chat_repository_id_ok ''repo-not-indexed''"
  by (simp add: id_regex_defs)

lemma ChatRequest_id:
  "ChatRequest msg rid h = Inr request \<Longrightarrow> repository_id request = rid \<and> chat_repository_id_ok rid"
  by (auto simp add: ChatRequest_def split: if_splits sum.splits)

text \<open>
  C8. The literal \<open>repo-not-indexed\<close> fails the \<open>repository_id\<close> pattern, so a chat
  body carrying it is answered 422 in both apps without the collaborator being
  invoked; and a \<open>ChatRequest\<close> that could be built never carries it, so the simulated
  chat collaborator never raises its \<open>FileNotFoundError\<close> on one.
\<close>

theorem not_indexed_trigger_unreachable:
  "\<not> chat_repository_id_ok ''repo-not-indexed''
   \<and> (body_repository_id body = ''repo-not-indexed'' \<longrightarrow>
        post_api_chat process_query body calls = (Http422, calls)
        \<and> sim_post_api_chat body calls' = (Http422, calls'))
   \<and> (ChatRequest msg rid h = Inr request \<longrightarrow>
        repository_id request \<noteq> ''repo-not-indexed''
        \<and> process_chat_request request
            \<noteq> Inl (raise FileNotFoundError (py_str ''Repository ID not found in system'')))"
proof (intro conjI impI)
  show "\<not> chat_repository_id_ok ''repo-not-indexed''" by (rule not_indexed_literal)
next
  assume "body_repository_id body = ''repo-not-indexed''"
  then have "ChatRequest (body_message body) (body_repository_id body)
               (body_conversation_history body) = Inl ValidationError"
    using not_indexed_literal by (simp add: ChatRequest_def)
  then show "post_api_chat process_query body calls = (Http422, calls)"
    and "sim_post_api_chat body calls' = (Http422, calls')"
    by (simp_all add: post_api_chat_def sim_post_api_chat_def)
next
  assume ok: "ChatRequest msg rid h = Inr request"
  from ChatRequest_id [OF ok] not_indexed_literal
  show ne: "repository_id request \<noteq> ''repo-not-indexed''" by auto
  show "process_chat_request request
            \<noteq> Inl (raise FileNotFoundError (py_str ''Repository ID not found in system''))"
    using ne
    by (auto simp add: process_chat_request_def raise_def class_defs
        PydanticValidationError_def split: sum.splits)
qed

theorem not_indexed_trigger_unreachable_witness:
  "sim_post_api_chat
     \<lparr>body_message = ''where is auth?'', body_repository_id = ''repo-not-indexed'',
      body_conversation_history = None\<rparr> [] = (Http422, [])
   \<and> process_chat_request
       \<lparr>message = ''where is auth?'', repository_id = ''repo-a1b2c3d4'',
        conversation_history = None\<rparr>
       \<noteq> Inl (raise FileNotFoundError (py_str ''Repository ID not found in system''))"
proof -
  let ?body = "\<lparr>body_message = ''where is auth?'', body_repository_id = ''repo-not-indexed'',
      body_conversation_history = None\<rparr>"
  let ?request = "\<lparr>message = ''where is auth?'', repository_id = ''repo-a1b2c3d4'',
        conversation_history = None\<rparr>"
  have a: "body_repository_id ?body = ''repo-not-indexed''" by simp
  have b: "ChatRequest ''where is auth?'' ''repo-a1b2c3d4'' None = Inr ?request"
    by (simp add: ChatRequest_def build_history_def max_items_ok_def
        validate_conversation_history_def id_regex_defs)
  from not_indexed_trigger_unreachable
         [of ?body ChatService_process_query "[]" "[]" "''where is auth?''"
             "''repo-a1b2c3d4''" None ?request] a b
  show ?thesis by blast
qed

section \<open>\<open>GET /\<close>\<close>

text \<open>The simulation app answers \<open>GET /\<close> with \<open>{"Hello": "World"}\<close>, which is not the health shape.\<close>

theorem simulation_root_is_not_health:
  "sim_get_root () = Http200 [(''Hello'', ''World'')]
   \<and> \<not> healthy_body [(''Hello'', ''World'')]"
  by (simp add: sim_get_root_def read_root_def healthy_body_def)

text \<open>
  C9, amended. For every request, \<open>GET /\<close> of the real app answers 200 with
  \<open>{"status": "healthy", "service": "agents-locate-api"}\<close>; \<open>GET /\<close> of the
  simulation app answers 200 with \<open>{"Hello": "World"}\<close>.
\<close>

theorem real_root_is_health:
  "get_root request = Http200 health_check
   \<and> healthy_body health_check
   \<and> map_of health_check ''service'' = Some ''agents-locate-api''
   \<and> sim_get_root request = Http200 [(''Hello'', ''World'')]"
  by (auto simp add: get_root_def sim_get_root_def read_root_def health_check_def healthy_body_def)

end
